theory Spec2Isabelle
  imports Complex_Main
begin

section \<open>Data model of scipy/ndimage/fourier.py\<close>

text \<open>
  The element types of numpy arrays (the value of \<open>dtype.type\<close>). The module names four of
  them; the others stand for every type an input array can have besides.
\<close>

datatype scalar_type =
    bool8 | int8 | int16 | int32 | int64 | uint8 | uint16 | uint32 | uint64
  | float32 | float64 | longdouble | complex64 | complex128 | clongdouble | object0

text \<open>
  A Python type object, as it is passed for \<open>output\<close>: a numpy scalar type, or any other
  class (\<open>int\<close>, \<open>float\<close>, \<open>str\<close>, ...) by its name. Type objects compare by identity.
\<close>

datatype pytype = numpy scalar_type | builtin string

text \<open>
  A \<open>numpy.dtype\<close>: its scalar type and whether its byte order is the machine's. Two dtypes
  of one scalar type can differ, which is why the source tests \<open>input.dtype.type\<close> and then
  allocates with \<open>input.dtype\<close>.
\<close>

record dtype =
  dtype_type :: scalar_type
  dtype_native :: bool

text \<open>
  The dtype numpy builds from a type object (\<open>dtype = numpy.float64\<close>): that scalar type,
  in native byte order. Of the other classes, \<open>float\<close> and \<open>complex\<close> give the 64-bit
  kinds, \<open>int\<close> and \<open>bool\<close> theirs, and every other class the object dtype.
\<close>

definition dtype_of :: "pytype \<Rightarrow> dtype" where
  "dtype_of t =
     \<lparr>dtype_type =
        (case t of
           numpy k \<Rightarrow> k
         | builtin c \<Rightarrow>
             (if c = ''float'' then float64 else if c = ''complex'' then complex128
              else if c = ''int'' then int64 else if c = ''bool'' then bool8 else object0)),
      dtype_native = True\<rparr>"

text \<open>
  An array: its shape, its dtype and its elements in row-major order. Element values are
  taken in the complex numbers, which hold every finite value of the four element types.
\<close>

record ndarray =
  shape :: "nat list"
  dtype :: dtype
  data :: "complex list"

definition ndim :: "ndarray \<Rightarrow> nat" where
  "ndim a = length (shape a)"

text \<open>\<open>numpy.zeros(shape, dtype)\<close>.\<close>

definition zeros :: "nat list \<Rightarrow> dtype \<Rightarrow> ndarray" where
  "zeros shp dt = \<lparr>shape = shp, dtype = dt, data = replicate (prod_list shp) 0\<rparr>"

text \<open>
  The errors. The module itself raises \<open>RuntimeError\<close> with one of two messages;
  \<open>AxisOutOfRange\<close> and \<open>LengthMismatch\<close> come from the helpers of \<open>_ni_support\<close>, and
  \<open>KernelError\<close> is whatever the native routine of \<open>_nd_image\<close> raises.
\<close>

datatype error =
    RuntimeError string
  | AxisOutOfRange
  | LengthMismatch
  | KernelError string

text \<open>
  Arrays are objects with identity: a reference is an address in a store. \<open>fresh\<close> is the
  next address an allocation takes; every reference a caller holds is below it.
  \<open>trace\<close> records the calls made into the native module, oldest first.
\<close>

type_synonym addr = nat

text \<open>
  A call into \<open>_nd_image\<close>, with its arguments in the order of the call:
  \<open>fourier_filter(input, parameters, n, axis, output, filter_type)\<close> and
  \<open>fourier_shift(input, shifts, n, axis, output)\<close>. The parameter array is given by its
  values.
\<close>

datatype native_call =
    Fourier_filter addr "real list" int int addr nat
  | Fourier_shift addr "real list" int int addr

record state =
  heap :: "addr \<Rightarrow> ndarray"
  fresh :: addr
  trace :: "native_call list"

text \<open>Allocation of a new array object: it takes the address \<open>fresh\<close>.\<close>

definition alloc :: "ndarray \<Rightarrow> state \<Rightarrow> addr \<times> state" where
  "alloc a s = (fresh s, s\<lparr>heap := (heap s)(fresh s := a), fresh := Suc (fresh s)\<rparr>)"

text \<open>
  The \<open>output\<close> argument: \<open>None\<close>, a type object (\<open>type(output) is types.TypeType\<close>), or
  anything else, which the source takes to be an array.
\<close>

datatype output_arg = Absent | TypeToken pytype | Buffer addr

section \<open>The output provisioners\<close>

text \<open>
  \<open>_get_output_fourier(output, input)\<close>. The result is the pair
  \<open>(output, return_value)\<close>; \<open>return_value\<close> is \<open>None\<close> or the array that was allocated.
\<close>

definition get_output_fourier ::
  "output_arg \<Rightarrow> addr \<Rightarrow> state \<Rightarrow> (error + addr \<times> addr option) \<times> state" where
  "get_output_fourier output input s =
     (case output of
        Absent \<Rightarrow>
          (let (out, s') =
                 (if dtype_type (dtype (heap s input)) \<in> set [complex64, complex128, float32]
                  then alloc (zeros (shape (heap s input)) (dtype (heap s input))) s
                  else alloc (zeros (shape (heap s input)) (dtype_of (numpy float64))) s)
           in (Inr (out, Some out), s'))
      | TypeToken t \<Rightarrow>
          (if t \<notin> set [numpy complex64, numpy complex128, numpy float32, numpy float64]
           then (Inl (RuntimeError ''output type not supported''), s)
           else (let (out, s') = alloc (zeros (shape (heap s input)) (dtype_of t)) s
                 in (Inr (out, Some out), s')))
      | Buffer b \<Rightarrow>
          (if shape (heap s b) \<noteq> shape (heap s input)
           then (Inl (RuntimeError ''output shape not correct''), s)
           else (Inr (b, None), s)))"

text \<open>\<open>_get_output_fourier_complex(output, input)\<close>.\<close>

definition get_output_fourier_complex ::
  "output_arg \<Rightarrow> addr \<Rightarrow> state \<Rightarrow> (error + addr \<times> addr option) \<times> state" where
  "get_output_fourier_complex output input s =
     (case output of
        Absent \<Rightarrow>
          (let (out, s') =
                 (if dtype_type (dtype (heap s input)) \<in> set [complex64, complex128]
                  then alloc (zeros (shape (heap s input)) (dtype (heap s input))) s
                  else alloc (zeros (shape (heap s input)) (dtype_of (numpy complex128))) s)
           in (Inr (out, Some out), s'))
      | TypeToken t \<Rightarrow>
          (if t \<notin> set [numpy complex64, numpy complex128]
           then (Inl (RuntimeError ''output type not supported''), s)
           else (let (out, s') = alloc (zeros (shape (heap s input)) (dtype_of t)) s
                 in (Inr (out, Some out), s')))
      | Buffer b \<Rightarrow>
          (if shape (heap s b) \<noteq> shape (heap s input)
           then (Inl (RuntimeError ''output shape not correct''), s)
           else (Inr (b, None), s)))"

section \<open>The helpers of \<open>_ni_support\<close>\<close>

text \<open>
  Modelled from the spec: \<open>_ni_support._check_axis(axis, rank)\<close>, whose source is not in
  this file. It accepts an integer in \<open>[-rank, rank)\<close>, maps a negative value to
  \<open>rank + value\<close>, and fails with an out-of-range error for any value outside the range.
\<close>

definition check_axis :: "int \<Rightarrow> nat \<Rightarrow> error + int" where
  "check_axis axis rank =
     (if axis < - int rank \<or> int rank \<le> axis then Inl AxisOutOfRange
      else if axis < 0 then Inr (int rank + axis)
      else Inr axis)"

text \<open>A filter parameter as the caller gives it: one number or a sequence of numbers.\<close>

datatype param = Scalar real | Sequence "real list"

text \<open>
  Modelled from the spec: \<open>_ni_support._normalize_sequence(input, rank)\<close>, whose source is
  not in this file. A scalar is repeated \<open>rank\<close> times; a sequence must have length
  \<open>rank\<close> and is returned as it is; otherwise the call fails with a length-mismatch error.
\<close>

definition normalize_sequence :: "param \<Rightarrow> nat \<Rightarrow> error + real list" where
  "normalize_sequence p rank =
     (case p of
        Scalar x \<Rightarrow> Inr (replicate rank x)
      | Sequence xs \<Rightarrow> (if length xs \<noteq> rank then Inl LengthMismatch else Inr xs))"

section \<open>The native module\<close>

text \<open>
  The routines of \<open>_nd_image\<close> are outside this module: they are a parameter of the model.
  A routine reads and writes the arrays of the store and either returns nothing or raises,
  which is its error message here.
\<close>

type_synonym native = "native_call \<Rightarrow> (addr \<Rightarrow> ndarray) \<Rightarrow> string option \<times> (addr \<Rightarrow> ndarray)"

definition call_native :: "native \<Rightarrow> native_call \<Rightarrow> state \<Rightarrow> (error + unit) \<times> state" where
  "call_native K c s =
     (case K c (heap s) of
        (None, h) \<Rightarrow> (Inr (), s\<lparr>heap := h, trace := trace s @ [c]\<rparr>)
      | (Some msg, h) \<Rightarrow> (Inl (KernelError msg), s\<lparr>heap := h, trace := trace s @ [c]\<rparr>))"

section \<open>The four filters\<close>

text \<open>
  \<open>input\<close> is an array already, so \<open>numpy.asarray(input)\<close> is that same object. The
  normalised parameters become a new contiguous float64 array
  (\<open>numpy.asarray(sigmas, dtype = numpy.float64)\<close> of a list), so the copy of a
  non-contiguous one never runs; the native call receives their values.
\<close>

definition fourier_gaussian ::
  "native \<Rightarrow> addr \<Rightarrow> param \<Rightarrow> int \<Rightarrow> int \<Rightarrow> output_arg \<Rightarrow> state
     \<Rightarrow> (error + addr option) \<times> state" where
  "fourier_gaussian K input sigma n axis output s =
     (case get_output_fourier output input s of
        (Inl e, s1) \<Rightarrow> (Inl e, s1)
      | (Inr (out, return_value), s1) \<Rightarrow>
          (case check_axis axis (ndim (heap s1 input)) of
             Inl e \<Rightarrow> (Inl e, s1)
           | Inr ax \<Rightarrow>
               (case normalize_sequence sigma (ndim (heap s1 input)) of
                  Inl e \<Rightarrow> (Inl e, s1)
                | Inr sigmas \<Rightarrow>
                    (case call_native K (Fourier_filter input sigmas n ax out 0) s1 of
                       (Inl e, s2) \<Rightarrow> (Inl e, s2)
                     | (Inr u, s2) \<Rightarrow> (Inr return_value, s2)))))"

definition fourier_uniform ::
  "native \<Rightarrow> addr \<Rightarrow> param \<Rightarrow> int \<Rightarrow> int \<Rightarrow> output_arg \<Rightarrow> state
     \<Rightarrow> (error + addr option) \<times> state" where
  "fourier_uniform K input size' n axis output s =
     (case get_output_fourier output input s of
        (Inl e, s1) \<Rightarrow> (Inl e, s1)
      | (Inr (out, return_value), s1) \<Rightarrow>
          (case check_axis axis (ndim (heap s1 input)) of
             Inl e \<Rightarrow> (Inl e, s1)
           | Inr ax \<Rightarrow>
               (case normalize_sequence size' (ndim (heap s1 input)) of
                  Inl e \<Rightarrow> (Inl e, s1)
                | Inr sizes \<Rightarrow>
                    (case call_native K (Fourier_filter input sizes n ax out 1) s1 of
                       (Inl e, s2) \<Rightarrow> (Inl e, s2)
                     | (Inr u, s2) \<Rightarrow> (Inr return_value, s2)))))"

definition fourier_ellipsoid ::
  "native \<Rightarrow> addr \<Rightarrow> param \<Rightarrow> int \<Rightarrow> int \<Rightarrow> output_arg \<Rightarrow> state
     \<Rightarrow> (error + addr option) \<times> state" where
  "fourier_ellipsoid K input size' n axis output s =
     (case get_output_fourier output input s of
        (Inl e, s1) \<Rightarrow> (Inl e, s1)
      | (Inr (out, return_value), s1) \<Rightarrow>
          (case check_axis axis (ndim (heap s1 input)) of
             Inl e \<Rightarrow> (Inl e, s1)
           | Inr ax \<Rightarrow>
               (case normalize_sequence size' (ndim (heap s1 input)) of
                  Inl e \<Rightarrow> (Inl e, s1)
                | Inr sizes \<Rightarrow>
                    (case call_native K (Fourier_filter input sizes n ax out 2) s1 of
                       (Inl e, s2) \<Rightarrow> (Inl e, s2)
                     | (Inr u, s2) \<Rightarrow> (Inr return_value, s2)))))"

definition fourier_shift ::
  "native \<Rightarrow> addr \<Rightarrow> param \<Rightarrow> int \<Rightarrow> int \<Rightarrow> output_arg \<Rightarrow> state
     \<Rightarrow> (error + addr option) \<times> state" where
  "fourier_shift K input shift n axis output s =
     (case get_output_fourier_complex output input s of
        (Inl e, s1) \<Rightarrow> (Inl e, s1)
      | (Inr (out, return_value), s1) \<Rightarrow>
          (case check_axis axis (ndim (heap s1 input)) of
             Inl e \<Rightarrow> (Inl e, s1)
           | Inr ax \<Rightarrow>
               (case normalize_sequence shift (ndim (heap s1 input)) of
                  Inl e \<Rightarrow> (Inl e, s1)
                | Inr shifts \<Rightarrow>
                    (case call_native K (Fourier_shift input shifts n ax out) s1 of
                       (Inl e, s2) \<Rightarrow> (Inl e, s2)
                     | (Inr u, s2) \<Rightarrow> (Inr return_value, s2)))))"

section \<open>Arrays and a store for the examples\<close>

text \<open>\<open>numpy.ones(shape, dtype)\<close>.\<close>

definition ones :: "nat list \<Rightarrow> dtype \<Rightarrow> ndarray" where
  "ones shp dt = \<lparr>shape = shp, dtype = dt, data = replicate (prod_list shp) 1\<rparr>"

text \<open>
  A store with eight arrays: at 0 \<open>ones((4,4))\<close>, at 1 \<open>zeros((4,4))\<close>, at 2
  \<open>zeros((4,5))\<close>, at 3 \<open>ones((8,), complex128)\<close>, at 4 \<open>ones((8,), float32)\<close>, at 5
  \<open>ones((4,4), int32)\<close>, at 6 \<open>zeros((8,))\<close>, at 7 \<open>ones((8,), complex64)\<close>.
\<close>

definition example_heap :: "addr \<Rightarrow> ndarray" where
  "example_heap =
     (\<lambda>a. zeros [] (dtype_of (numpy float64)))
       (0 := ones [4, 4] (dtype_of (numpy float64)),
        1 := zeros [4, 4] (dtype_of (numpy float64)),
        2 := zeros [4, 5] (dtype_of (numpy float64)),
        3 := ones [8] (dtype_of (numpy complex128)),
        4 := ones [8] (dtype_of (numpy float32)),
        5 := ones [4, 4] (dtype_of (numpy int32)),
        6 := zeros [8] (dtype_of (numpy float64)),
        7 := ones [8] (dtype_of (numpy complex64)))"

definition example_state :: state where
  "example_state = \<lparr>heap = example_heap, fresh = 8, trace = []\<rparr>"

text \<open>A native routine that returns without raising and without writing.\<close>

definition idle_kernel :: native where
  "idle_kernel c h = (None, h)"

text \<open>A native routine that raises on every call and writes nothing.\<close>

definition raising_kernel :: native where
  "raising_kernel c h = (Some ''data type not supported'', h)"

section \<open>Properties of the provisioners\<close>

text \<open>
  C1. Called with \<open>output\<close> absent, \<open>_get_output_fourier\<close> allocates a new array (at the
  address \<open>fresh\<close>, which no array had before), zero-filled and of the input's shape; its
  dtype is the input's dtype when the input's scalar type is complex64, complex128 or float32
  and float64 otherwise; that array is both the output and the value to return. Nothing else
  in the store changes and no native call is made.
\<close>

theorem get_output_fourier_absent:
  "fst (get_output_fourier Absent input s) = Inr (fresh s, Some (fresh s)) \<and>
   heap (snd (get_output_fourier Absent input s)) =
     (heap s)(fresh s := zeros (shape (heap s input))
        (if dtype_type (dtype (heap s input)) \<in> {complex64, complex128, float32}
         then dtype (heap s input) else dtype_of (numpy float64))) \<and>
   shape (heap (snd (get_output_fourier Absent input s)) (fresh s)) = shape (heap s input) \<and>
   data (heap (snd (get_output_fourier Absent input s)) (fresh s)) =
     replicate (prod_list (shape (heap s input))) 0 \<and>
   fresh (snd (get_output_fourier Absent input s)) = Suc (fresh s) \<and>
   trace (snd (get_output_fourier Absent input s)) = trace s"
  by (simp add: get_output_fourier_def alloc_def zeros_def)

theorem get_output_fourier_absent_witness:
  "fst (get_output_fourier Absent 7 example_state) = Inr (8, Some 8) \<and>
   dtype (heap (snd (get_output_fourier Absent 7 example_state)) 8) = dtype_of (numpy complex64) \<and>
   dtype (heap (snd (get_output_fourier Absent 5 example_state)) 8) = dtype_of (numpy float64) \<and>
   shape (heap (snd (get_output_fourier Absent 5 example_state)) 8) = [4, 4] \<and>
   data (heap (snd (get_output_fourier Absent 5 example_state)) 8) = replicate 16 0"
  using get_output_fourier_absent [of 7 example_state]
    get_output_fourier_absent [of 5 example_state]
  by (simp add: example_state_def example_heap_def ones_def zeros_def dtype_of_def)

text \<open>
  C2. \<open>_get_output_fourier_complex\<close> differs from \<open>_get_output_fourier\<close> in two places.
  With \<open>output\<close> absent the new array has the input's dtype only when its scalar type is
  complex64 or complex128, and complex128 otherwise. With a type object it raises the
  unsupported-type error exactly when the type is neither complex64 nor complex128, and for
  these two it does what \<open>_get_output_fourier\<close> does. With an array it does what
  \<open>_get_output_fourier\<close> does.
\<close>

theorem get_output_fourier_complex_variant:
  "fst (get_output_fourier_complex Absent input s) = Inr (fresh s, Some (fresh s)) \<and>
   heap (snd (get_output_fourier_complex Absent input s)) =
     (heap s)(fresh s := zeros (shape (heap s input))
        (if dtype_type (dtype (heap s input)) \<in> {complex64, complex128}
         then dtype (heap s input) else dtype_of (numpy complex128))) \<and>
   fresh (snd (get_output_fourier_complex Absent input s)) = Suc (fresh s) \<and>
   trace (snd (get_output_fourier_complex Absent input s)) = trace s \<and>
   (fst (get_output_fourier_complex (TypeToken t) input s) =
      Inl (RuntimeError ''output type not supported''))
     = (t \<notin> {numpy complex64, numpy complex128}) \<and>
   get_output_fourier_complex (TypeToken t) input s =
     (if t \<in> {numpy complex64, numpy complex128}
      then get_output_fourier (TypeToken t) input s
      else (Inl (RuntimeError ''output type not supported''), s)) \<and>
   get_output_fourier_complex (Buffer b) input s = get_output_fourier (Buffer b) input s"
  by (simp add: get_output_fourier_complex_def get_output_fourier_def alloc_def)

theorem get_output_fourier_complex_variant_witness:
  "dtype (heap (snd (get_output_fourier_complex Absent 4 example_state)) 8) =
     dtype_of (numpy complex128) \<and>
   dtype (heap (snd (get_output_fourier_complex Absent 7 example_state)) 8) =
     dtype_of (numpy complex64) \<and>
   shape (heap (snd (get_output_fourier_complex Absent 3 example_state)) 8) = [8] \<and>
   fst (get_output_fourier_complex (TypeToken (numpy float64)) 3 example_state) =
     Inl (RuntimeError ''output type not supported'') \<and>
   fst (get_output_fourier_complex (TypeToken (numpy complex64)) 3 example_state) =
     Inr (8, Some 8) \<and>
   get_output_fourier_complex (Buffer 6) 3 example_state = (Inr (6, None), example_state)"
  using get_output_fourier_complex_variant [of 4 example_state "numpy float64" 6]
    get_output_fourier_complex_variant [of 7 example_state "numpy complex64" 6]
    get_output_fourier_complex_variant [of 3 example_state "numpy float64" 6]
    get_output_fourier_complex_variant [of 3 example_state "numpy complex64" 6]
  by (simp add: get_output_fourier_def alloc_def example_state_def example_heap_def ones_def
      zeros_def dtype_of_def)

text \<open>
  C3. Called with a type object, \<open>_get_output_fourier\<close> raises the unsupported-type error
  exactly when the type is not one of complex64, complex128, float32, float64. For one of
  these it allocates a zero-filled array of that type and of the input's shape, which is both
  the output and the value to return.
\<close>

theorem get_output_fourier_token:
  "(fst (get_output_fourier (TypeToken t) input s) =
      Inl (RuntimeError ''output type not supported''))
     = (t \<notin> {numpy complex64, numpy complex128, numpy float32, numpy float64}) \<and>
   get_output_fourier (TypeToken t) input s =
     (if t \<in> {numpy complex64, numpy complex128, numpy float32, numpy float64}
      then (Inr (fresh s, Some (fresh s)),
            s\<lparr>heap := (heap s)(fresh s := zeros (shape (heap s input)) (dtype_of t)),
              fresh := Suc (fresh s)\<rparr>)
      else (Inl (RuntimeError ''output type not supported''), s)) \<and>
   shape (zeros (shape (heap s input)) (dtype_of t)) = shape (heap s input) \<and>
   data (zeros (shape (heap s input)) (dtype_of t)) =
     replicate (prod_list (shape (heap s input))) 0 \<and>
   dtype (zeros (shape (heap s input)) (dtype_of (numpy k))) =
     \<lparr>dtype_type = k, dtype_native = True\<rparr>"
  by (simp add: get_output_fourier_def alloc_def zeros_def dtype_of_def)

theorem get_output_fourier_token_witness:
  "fst (get_output_fourier (TypeToken (numpy int32)) 0 example_state) =
     Inl (RuntimeError ''output type not supported'') \<and>
   fst (get_output_fourier (TypeToken (builtin ''float'')) 0 example_state) =
     Inl (RuntimeError ''output type not supported'') \<and>
   fst (get_output_fourier (TypeToken (numpy float32)) 0 example_state) = Inr (8, Some 8) \<and>
   heap (snd (get_output_fourier (TypeToken (numpy float32)) 0 example_state)) 8 =
     zeros [4, 4] (dtype_of (numpy float32))"
  using get_output_fourier_token [of "numpy int32" 0 example_state]
    get_output_fourier_token [of "builtin ''float''" 0 example_state]
    get_output_fourier_token [of "numpy float32" 0 example_state]
  by (simp add: example_state_def example_heap_def ones_def)

section \<open>Properties of the filters\<close>

text \<open>The provisioners on an array argument.\<close>

lemma get_output_fourier_Buffer:
  "get_output_fourier (Buffer b) input s =
     (if shape (heap s b) \<noteq> shape (heap s input)
      then (Inl (RuntimeError ''output shape not correct''), s) else (Inr (b, None), s))"
  by (simp add: get_output_fourier_def)

lemma get_output_fourier_complex_Buffer:
  "get_output_fourier_complex (Buffer b) input s =
     (if shape (heap s b) \<noteq> shape (heap s input)
      then (Inl (RuntimeError ''output shape not correct''), s) else (Inr (b, None), s))"
  by (simp add: get_output_fourier_complex_def)

lemma check_axis_error: "check_axis a r = Inl e \<Longrightarrow> e = AxisOutOfRange"
  by (auto simp: check_axis_def split: if_splits)

lemma normalize_sequence_error: "normalize_sequence p r = Inl e \<Longrightarrow> e = LengthMismatch"
  by (auto simp: normalize_sequence_def split: if_splits param.splits)

lemma call_native_result:
  "fst (call_native K c s) = Inl e \<Longrightarrow> \<exists>msg. e = KernelError msg"
  "trace (snd (call_native K c s)) = trace s @ [c]"
  "fresh (snd (call_native K c s)) = fresh s"
  by (auto simp: call_native_def split: prod.splits option.splits)

text \<open>The steps after the provisioner, common to the four filters.\<close>

lemma fourier_gaussian_Buffer_ok:
  assumes "shape (heap s b) = shape (heap s input)"
  shows "fourier_gaussian K input p n axis (Buffer b) s =
    (case check_axis axis (ndim (heap s input)) of
       Inl e \<Rightarrow> (Inl e, s)
     | Inr ax \<Rightarrow>
        (case normalize_sequence p (ndim (heap s input)) of
           Inl e \<Rightarrow> (Inl e, s)
         | Inr ps \<Rightarrow>
            (case call_native K (Fourier_filter input ps n ax b 0) s of
               (Inl e, s2) \<Rightarrow> (Inl e, s2)
             | (Inr u, s2) \<Rightarrow> (Inr None, s2))))"
  using assms by (simp add: fourier_gaussian_def get_output_fourier_Buffer)

lemma fourier_uniform_Buffer_ok:
  assumes "shape (heap s b) = shape (heap s input)"
  shows "fourier_uniform K input p n axis (Buffer b) s =
    (case check_axis axis (ndim (heap s input)) of
       Inl e \<Rightarrow> (Inl e, s)
     | Inr ax \<Rightarrow>
        (case normalize_sequence p (ndim (heap s input)) of
           Inl e \<Rightarrow> (Inl e, s)
         | Inr ps \<Rightarrow>
            (case call_native K (Fourier_filter input ps n ax b 1) s of
               (Inl e, s2) \<Rightarrow> (Inl e, s2)
             | (Inr u, s2) \<Rightarrow> (Inr None, s2))))"
  using assms by (simp add: fourier_uniform_def get_output_fourier_Buffer)

lemma fourier_ellipsoid_Buffer_ok:
  assumes "shape (heap s b) = shape (heap s input)"
  shows "fourier_ellipsoid K input p n axis (Buffer b) s =
    (case check_axis axis (ndim (heap s input)) of
       Inl e \<Rightarrow> (Inl e, s)
     | Inr ax \<Rightarrow>
        (case normalize_sequence p (ndim (heap s input)) of
           Inl e \<Rightarrow> (Inl e, s)
         | Inr ps \<Rightarrow>
            (case call_native K (Fourier_filter input ps n ax b 2) s of
               (Inl e, s2) \<Rightarrow> (Inl e, s2)
             | (Inr u, s2) \<Rightarrow> (Inr None, s2))))"
  using assms by (simp add: fourier_ellipsoid_def get_output_fourier_Buffer)

lemma fourier_shift_Buffer_ok:
  assumes "shape (heap s b) = shape (heap s input)"
  shows "fourier_shift K input p n axis (Buffer b) s =
    (case check_axis axis (ndim (heap s input)) of
       Inl e \<Rightarrow> (Inl e, s)
     | Inr ax \<Rightarrow>
        (case normalize_sequence p (ndim (heap s input)) of
           Inl e \<Rightarrow> (Inl e, s)
         | Inr ps \<Rightarrow>
            (case call_native K (Fourier_shift input ps n ax b) s of
               (Inl e, s2) \<Rightarrow> (Inl e, s2)
             | (Inr u, s2) \<Rightarrow> (Inr None, s2))))"
  using assms by (simp add: fourier_shift_def get_output_fourier_complex_Buffer)

text \<open>An error of the steps after the provisioner is never a \<open>RuntimeError\<close>.\<close>

lemma later_steps_no_RuntimeError:
  "fst (case check_axis axis r of
       Inl e \<Rightarrow> (Inl e, s)
     | Inr ax \<Rightarrow>
        (case normalize_sequence p r of
           Inl e \<Rightarrow> (Inl e, s)
         | Inr ps \<Rightarrow>
            (case call_native K (c ps ax) s of
               (Inl e, s2) \<Rightarrow> (Inl e, s2)
             | (Inr u, s2) \<Rightarrow> (Inr rv, s2)))) \<noteq> Inl (RuntimeError m)"
proof (cases "check_axis axis r")
  case (Inl e)
  then show ?thesis using check_axis_error [OF Inl] by simp
next
  case ax: (Inr ax)
  show ?thesis
  proof (cases "normalize_sequence p r")
    case (Inl e)
    then show ?thesis using ax normalize_sequence_error [OF Inl] by simp
  next
    case (Inr ps)
    then show ?thesis using ax call_native_result(1) [of K "c ps ax" s]
      by (auto split: prod.splits sum.splits)
  qed
qed

text \<open>
  C4. When \<open>output\<close> is an array whose shape differs from the input's, each of the four
  filters raises the shape-mismatch error and leaves the whole state as it was: the store,
  and so the output array, is unchanged, and the trace has no new native call. When the
  shapes are equal both provisioners return the array with \<open>return_value = None\<close>, and no
  filter raises a \<open>RuntimeError\<close>, the only kind the provisioners raise.
\<close>

theorem preallocated_output_shape:
  "(shape (heap s b) \<noteq> shape (heap s input) \<longrightarrow>
      fourier_gaussian K input p n axis (Buffer b) s =
        (Inl (RuntimeError ''output shape not correct''), s) \<and>
      fourier_uniform K input p n axis (Buffer b) s =
        (Inl (RuntimeError ''output shape not correct''), s) \<and>
      fourier_ellipsoid K input p n axis (Buffer b) s =
        (Inl (RuntimeError ''output shape not correct''), s) \<and>
      fourier_shift K input p n axis (Buffer b) s =
        (Inl (RuntimeError ''output shape not correct''), s)) \<and>
   (shape (heap s b) = shape (heap s input) \<longrightarrow>
      get_output_fourier (Buffer b) input s = (Inr (b, None), s) \<and>
      get_output_fourier_complex (Buffer b) input s = (Inr (b, None), s) \<and>
      fst (fourier_gaussian K input p n axis (Buffer b) s) \<noteq> Inl (RuntimeError m) \<and>
      fst (fourier_uniform K input p n axis (Buffer b) s) \<noteq> Inl (RuntimeError m) \<and>
      fst (fourier_ellipsoid K input p n axis (Buffer b) s) \<noteq> Inl (RuntimeError m) \<and>
      fst (fourier_shift K input p n axis (Buffer b) s) \<noteq> Inl (RuntimeError m))"
proof (intro conjI impI)
  assume ne: "shape (heap s b) \<noteq> shape (heap s input)"
  show "fourier_gaussian K input p n axis (Buffer b) s =
        (Inl (RuntimeError ''output shape not correct''), s)"
    using ne by (simp add: fourier_gaussian_def get_output_fourier_Buffer)
  show "fourier_uniform K input p n axis (Buffer b) s =
        (Inl (RuntimeError ''output shape not correct''), s)"
    using ne by (simp add: fourier_uniform_def get_output_fourier_Buffer)
  show "fourier_ellipsoid K input p n axis (Buffer b) s =
        (Inl (RuntimeError ''output shape not correct''), s)"
    using ne by (simp add: fourier_ellipsoid_def get_output_fourier_Buffer)
  show "fourier_shift K input p n axis (Buffer b) s =
        (Inl (RuntimeError ''output shape not correct''), s)"
    using ne by (simp add: fourier_shift_def get_output_fourier_complex_Buffer)
next
  assume eq: "shape (heap s b) = shape (heap s input)"
  show "get_output_fourier (Buffer b) input s = (Inr (b, None), s)"
    using eq by (simp add: get_output_fourier_Buffer)
  show "get_output_fourier_complex (Buffer b) input s = (Inr (b, None), s)"
    using eq by (simp add: get_output_fourier_complex_Buffer)
  show "fst (fourier_gaussian K input p n axis (Buffer b) s) \<noteq> Inl (RuntimeError m)"
    unfolding fourier_gaussian_Buffer_ok [OF eq]
    by (rule later_steps_no_RuntimeError [where c = "\<lambda>ps ax. Fourier_filter input ps n ax b 0"])
  show "fst (fourier_uniform K input p n axis (Buffer b) s) \<noteq> Inl (RuntimeError m)"
    unfolding fourier_uniform_Buffer_ok [OF eq]
    by (rule later_steps_no_RuntimeError [where c = "\<lambda>ps ax. Fourier_filter input ps n ax b 1"])
  show "fst (fourier_ellipsoid K input p n axis (Buffer b) s) \<noteq> Inl (RuntimeError m)"
    unfolding fourier_ellipsoid_Buffer_ok [OF eq]
    by (rule later_steps_no_RuntimeError [where c = "\<lambda>ps ax. Fourier_filter input ps n ax b 2"])
  show "fst (fourier_shift K input p n axis (Buffer b) s) \<noteq> Inl (RuntimeError m)"
    unfolding fourier_shift_Buffer_ok [OF eq]
    by (rule later_steps_no_RuntimeError [where c = "\<lambda>ps ax. Fourier_shift input ps n ax b"])
qed

lemma example_shapes:
  "shape (heap example_state 0) = [4, 4]" "shape (heap example_state (Suc 0)) = [4, 4]"
  "shape (heap example_state 2) = [4, 5]" "shape (heap example_state 3) = [8]"
  "shape (heap example_state 4) = [8]" "shape (heap example_state 5) = [4, 4]"
  "shape (heap example_state 6) = [8]" "shape (heap example_state 7) = [8]"
  by (simp_all add: example_state_def example_heap_def ones_def zeros_def)

theorem preallocated_output_shape_witness:
  "shape (heap example_state 2) \<noteq> shape (heap example_state 0) \<and>
   fourier_gaussian idle_kernel 0 (Scalar 1) (- 1) (- 1) (Buffer 2) example_state =
     (Inl (RuntimeError ''output shape not correct''), example_state) \<and>
   fourier_shift idle_kernel 0 (Scalar 1) (- 1) (- 1) (Buffer 2) example_state =
     (Inl (RuntimeError ''output shape not correct''), example_state) \<and>
   shape (heap example_state 1) = shape (heap example_state 0) \<and>
   get_output_fourier (Buffer 1) 0 example_state = (Inr (1, None), example_state) \<and>
   fst (fourier_gaussian idle_kernel 0 (Scalar 1) (- 1) (- 1) (Buffer 1) example_state)
     \<noteq> Inl (RuntimeError ''output shape not correct'')"
  using preallocated_output_shape [of example_state 2 0 idle_kernel "Scalar 1" "- 1" "- 1"]
    preallocated_output_shape [of example_state 1 0 idle_kernel "Scalar 1" "- 1" "- 1"
      "''output shape not correct''"]
  by (simp add: example_shapes)

text \<open>What a provisioner that succeeds returns, and what it leaves as it was.\<close>

lemma get_output_fourier_success:
  assumes "get_output_fourier output input s = (Inr (out, rv), s1)"
  shows "rv = (case output of Buffer b \<Rightarrow> None | _ \<Rightarrow> Some (fresh s))"
    and "out = (case output of Buffer b \<Rightarrow> b | _ \<Rightarrow> fresh s)"
    and "fresh s1 = (case output of Buffer b \<Rightarrow> fresh s | _ \<Rightarrow> Suc (fresh s))"
    and "trace s1 = trace s"
    and "shape (heap s1 input) = shape (heap s input)"
  using assms
  by (auto simp: get_output_fourier_def alloc_def zeros_def
      split: output_arg.splits if_splits)

lemma get_output_fourier_complex_success:
  assumes "get_output_fourier_complex output input s = (Inr (out, rv), s1)"
  shows "rv = (case output of Buffer b \<Rightarrow> None | _ \<Rightarrow> Some (fresh s))"
    and "out = (case output of Buffer b \<Rightarrow> b | _ \<Rightarrow> fresh s)"
    and "fresh s1 = (case output of Buffer b \<Rightarrow> fresh s | _ \<Rightarrow> Suc (fresh s))"
    and "trace s1 = trace s"
    and "shape (heap s1 input) = shape (heap s input)"
  using assms
  by (auto simp: get_output_fourier_complex_def alloc_def zeros_def
      split: output_arg.splits if_splits)

lemma get_output_fourier_failure:
  assumes "get_output_fourier output input s = (Inl e, s1)"
  shows "s1 = s"
  using assms
  by (auto simp: get_output_fourier_def alloc_def split: output_arg.splits if_splits)

lemma get_output_fourier_complex_failure:
  assumes "get_output_fourier_complex output input s = (Inl e, s1)"
  shows "s1 = s"
  using assms
  by (auto simp: get_output_fourier_complex_def alloc_def split: output_arg.splits if_splits)

text \<open>The steps after the provisioner, when they end without an error.\<close>

lemma later_steps_success:
  assumes "fst (case check_axis axis r of
       Inl e \<Rightarrow> (Inl e, s)
     | Inr ax \<Rightarrow>
        (case normalize_sequence p r of
           Inl e \<Rightarrow> (Inl e, s)
         | Inr ps \<Rightarrow>
            (case call_native K (c ps ax) s of
               (Inl e, s2) \<Rightarrow> (Inl e, s2)
             | (Inr u, s2) \<Rightarrow> (Inr rv, s2)))) = Inr x"
  shows "x = rv \<and>
    fresh (snd (case check_axis axis r of
       Inl e \<Rightarrow> (Inl e, s)
     | Inr ax \<Rightarrow>
        (case normalize_sequence p r of
           Inl e \<Rightarrow> (Inl e, s)
         | Inr ps \<Rightarrow>
            (case call_native K (c ps ax) s of
               (Inl e, s2) \<Rightarrow> (Inl e, s2)
             | (Inr u, s2) \<Rightarrow> (Inr rv, s2))))) = fresh s \<and>
    (\<exists>ps ax. trace (snd (case check_axis axis r of
       Inl e \<Rightarrow> (Inl e, s)
     | Inr ax \<Rightarrow>
        (case normalize_sequence p r of
           Inl e \<Rightarrow> (Inl e, s)
         | Inr ps \<Rightarrow>
            (case call_native K (c ps ax) s of
               (Inl e, s2) \<Rightarrow> (Inl e, s2)
             | (Inr u, s2) \<Rightarrow> (Inr rv, s2))))) = trace s @ [c ps ax])"
proof (cases "check_axis axis r")
  case (Inl e)
  then show ?thesis using assms by simp
next
  case ax: (Inr ax)
  show ?thesis
  proof (cases "normalize_sequence p r")
    case (Inl e)
    then show ?thesis using assms ax by simp
  next
    case (Inr ps)
    obtain res s2 where cn: "call_native K (c ps ax) s = (res, s2)"
      by (cases "call_native K (c ps ax) s")
    have tr: "trace s2 = trace s @ [c ps ax]" and fr: "fresh s2 = fresh s"
      using call_native_result(2,3) [of K "c ps ax" s] cn by simp_all
    show ?thesis using assms ax Inr cn tr fr
      by (cases res) auto
  qed
qed

text \<open>
  C5. A call of one of the four filters that ends without an error returns \<open>None\<close> when
  \<open>output\<close> was an array, and otherwise the array allocated during the call: its address
  is the one that was fresh before the call, the call has taken exactly that address, and it
  is the output argument of the native call the filter made.
\<close>

theorem return_value_of_filters:
  "(fst (fourier_gaussian K input p n axis output s) = Inr r \<longrightarrow>
      r = (case output of Buffer b \<Rightarrow> None | _ \<Rightarrow> Some (fresh s)) \<and>
      fresh (snd (fourier_gaussian K input p n axis output s)) =
        (case output of Buffer b \<Rightarrow> fresh s | _ \<Rightarrow> Suc (fresh s)) \<and>
      (\<exists>ps ax. trace (snd (fourier_gaussian K input p n axis output s)) =
         trace s @ [Fourier_filter input ps n ax
                      (case output of Buffer b \<Rightarrow> b | _ \<Rightarrow> fresh s) 0])) \<and>
   (fst (fourier_uniform K input p n axis output s) = Inr r \<longrightarrow>
      r = (case output of Buffer b \<Rightarrow> None | _ \<Rightarrow> Some (fresh s)) \<and>
      fresh (snd (fourier_uniform K input p n axis output s)) =
        (case output of Buffer b \<Rightarrow> fresh s | _ \<Rightarrow> Suc (fresh s)) \<and>
      (\<exists>ps ax. trace (snd (fourier_uniform K input p n axis output s)) =
         trace s @ [Fourier_filter input ps n ax
                      (case output of Buffer b \<Rightarrow> b | _ \<Rightarrow> fresh s) 1])) \<and>
   (fst (fourier_ellipsoid K input p n axis output s) = Inr r \<longrightarrow>
      r = (case output of Buffer b \<Rightarrow> None | _ \<Rightarrow> Some (fresh s)) \<and>
      fresh (snd (fourier_ellipsoid K input p n axis output s)) =
        (case output of Buffer b \<Rightarrow> fresh s | _ \<Rightarrow> Suc (fresh s)) \<and>
      (\<exists>ps ax. trace (snd (fourier_ellipsoid K input p n axis output s)) =
         trace s @ [Fourier_filter input ps n ax
                      (case output of Buffer b \<Rightarrow> b | _ \<Rightarrow> fresh s) 2])) \<and>
   (fst (fourier_shift K input p n axis output s) = Inr r \<longrightarrow>
      r = (case output of Buffer b \<Rightarrow> None | _ \<Rightarrow> Some (fresh s)) \<and>
      fresh (snd (fourier_shift K input p n axis output s)) =
        (case output of Buffer b \<Rightarrow> fresh s | _ \<Rightarrow> Suc (fresh s)) \<and>
      (\<exists>ps ax. trace (snd (fourier_shift K input p n axis output s)) =
         trace s @ [Fourier_shift input ps n ax
                      (case output of Buffer b \<Rightarrow> b | _ \<Rightarrow> fresh s)]))"
proof (intro conjI impI)
  assume ok: "fst (fourier_gaussian K input p n axis output s) = Inr r"
  obtain res s1 where pr: "get_output_fourier output input s = (res, s1)"
    by (cases "get_output_fourier output input s")
  from ok pr obtain out rv where res: "res = Inr (out, rv)"
    by (cases res) (auto simp: fourier_gaussian_def)
  note g = get_output_fourier_success [OF pr [unfolded res]]
  have later: "fourier_gaussian K input p n axis output s =
      (case check_axis axis (ndim (heap s1 input)) of
       Inl e \<Rightarrow> (Inl e, s1)
     | Inr ax \<Rightarrow>
        (case normalize_sequence p (ndim (heap s1 input)) of
           Inl e \<Rightarrow> (Inl e, s1)
         | Inr ps \<Rightarrow>
            (case call_native K (Fourier_filter input ps n ax out 0) s1 of
               (Inl e, s2) \<Rightarrow> (Inl e, s2)
             | (Inr u, s2) \<Rightarrow> (Inr rv, s2))))"
    by (simp add: fourier_gaussian_def pr res)
  note l = later_steps_success [where c = "\<lambda>ps ax. Fourier_filter input ps n ax out 0",
      OF ok [unfolded later], folded later]
  show "r = (case output of Buffer b \<Rightarrow> None | _ \<Rightarrow> Some (fresh s))"
    using l g(1) by simp
  show "fresh (snd (fourier_gaussian K input p n axis output s)) =
        (case output of Buffer b \<Rightarrow> fresh s | _ \<Rightarrow> Suc (fresh s))"
    using l g(3) by simp
  show "\<exists>ps ax. trace (snd (fourier_gaussian K input p n axis output s)) =
         trace s @ [Fourier_filter input ps n ax
                      (case output of Buffer b \<Rightarrow> b | _ \<Rightarrow> fresh s) 0]"
    using l g(2,4) by simp
next
  assume ok: "fst (fourier_uniform K input p n axis output s) = Inr r"
  obtain res s1 where pr: "get_output_fourier output input s = (res, s1)"
    by (cases "get_output_fourier output input s")
  from ok pr obtain out rv where res: "res = Inr (out, rv)"
    by (cases res) (auto simp: fourier_uniform_def)
  note g = get_output_fourier_success [OF pr [unfolded res]]
  have later: "fourier_uniform K input p n axis output s =
      (case check_axis axis (ndim (heap s1 input)) of
       Inl e \<Rightarrow> (Inl e, s1)
     | Inr ax \<Rightarrow>
        (case normalize_sequence p (ndim (heap s1 input)) of
           Inl e \<Rightarrow> (Inl e, s1)
         | Inr ps \<Rightarrow>
            (case call_native K (Fourier_filter input ps n ax out 1) s1 of
               (Inl e, s2) \<Rightarrow> (Inl e, s2)
             | (Inr u, s2) \<Rightarrow> (Inr rv, s2))))"
    by (simp add: fourier_uniform_def pr res)
  note l = later_steps_success [where c = "\<lambda>ps ax. Fourier_filter input ps n ax out 1",
      OF ok [unfolded later], folded later]
  show "r = (case output of Buffer b \<Rightarrow> None | _ \<Rightarrow> Some (fresh s))"
    using l g(1) by simp
  show "fresh (snd (fourier_uniform K input p n axis output s)) =
        (case output of Buffer b \<Rightarrow> fresh s | _ \<Rightarrow> Suc (fresh s))"
    using l g(3) by simp
  show "\<exists>ps ax. trace (snd (fourier_uniform K input p n axis output s)) =
         trace s @ [Fourier_filter input ps n ax
                      (case output of Buffer b \<Rightarrow> b | _ \<Rightarrow> fresh s) 1]"
    using l g(2,4) by simp
next
  assume ok: "fst (fourier_ellipsoid K input p n axis output s) = Inr r"
  obtain res s1 where pr: "get_output_fourier output input s = (res, s1)"
    by (cases "get_output_fourier output input s")
  from ok pr obtain out rv where res: "res = Inr (out, rv)"
    by (cases res) (auto simp: fourier_ellipsoid_def)
  note g = get_output_fourier_success [OF pr [unfolded res]]
  have later: "fourier_ellipsoid K input p n axis output s =
      (case check_axis axis (ndim (heap s1 input)) of
       Inl e \<Rightarrow> (Inl e, s1)
     | Inr ax \<Rightarrow>
        (case normalize_sequence p (ndim (heap s1 input)) of
           Inl e \<Rightarrow> (Inl e, s1)
         | Inr ps \<Rightarrow>
            (case call_native K (Fourier_filter input ps n ax out 2) s1 of
               (Inl e, s2) \<Rightarrow> (Inl e, s2)
             | (Inr u, s2) \<Rightarrow> (Inr rv, s2))))"
    by (simp add: fourier_ellipsoid_def pr res)
  note l = later_steps_success [where c = "\<lambda>ps ax. Fourier_filter input ps n ax out 2",
      OF ok [unfolded later], folded later]
  show "r = (case output of Buffer b \<Rightarrow> None | _ \<Rightarrow> Some (fresh s))"
    using l g(1) by simp
  show "fresh (snd (fourier_ellipsoid K input p n axis output s)) =
        (case output of Buffer b \<Rightarrow> fresh s | _ \<Rightarrow> Suc (fresh s))"
    using l g(3) by simp
  show "\<exists>ps ax. trace (snd (fourier_ellipsoid K input p n axis output s)) =
         trace s @ [Fourier_filter input ps n ax
                      (case output of Buffer b \<Rightarrow> b | _ \<Rightarrow> fresh s) 2]"
    using l g(2,4) by simp
next
  assume ok: "fst (fourier_shift K input p n axis output s) = Inr r"
  obtain res s1 where pr: "get_output_fourier_complex output input s = (res, s1)"
    by (cases "get_output_fourier_complex output input s")
  from ok pr obtain out rv where res: "res = Inr (out, rv)"
    by (cases res) (auto simp: fourier_shift_def)
  note g = get_output_fourier_complex_success [OF pr [unfolded res]]
  have later: "fourier_shift K input p n axis output s =
      (case check_axis axis (ndim (heap s1 input)) of
       Inl e \<Rightarrow> (Inl e, s1)
     | Inr ax \<Rightarrow>
        (case normalize_sequence p (ndim (heap s1 input)) of
           Inl e \<Rightarrow> (Inl e, s1)
         | Inr ps \<Rightarrow>
            (case call_native K (Fourier_shift input ps n ax out) s1 of
               (Inl e, s2) \<Rightarrow> (Inl e, s2)
             | (Inr u, s2) \<Rightarrow> (Inr rv, s2))))"
    by (simp add: fourier_shift_def pr res)
  note l = later_steps_success [where c = "\<lambda>ps ax. Fourier_shift input ps n ax out",
      OF ok [unfolded later], folded later]
  show "r = (case output of Buffer b \<Rightarrow> None | _ \<Rightarrow> Some (fresh s))"
    using l g(1) by simp
  show "fresh (snd (fourier_shift K input p n axis output s)) =
        (case output of Buffer b \<Rightarrow> fresh s | _ \<Rightarrow> Suc (fresh s))"
    using l g(3) by simp
  show "\<exists>ps ax. trace (snd (fourier_shift K input p n axis output s)) =
         trace s @ [Fourier_shift input ps n ax
                      (case output of Buffer b \<Rightarrow> b | _ \<Rightarrow> fresh s)]"
    using l g(2,4) by simp
qed

text \<open>The example store, and the definitions that evaluate a filter on it.\<close>

lemma example_state_simps:
  "fresh example_state = 8" "trace example_state = []"
  "heap example_state 0 = ones [4, 4] (dtype_of (numpy float64))"
  "heap example_state (Suc 0) = zeros [4, 4] (dtype_of (numpy float64))"
  "heap example_state 2 = zeros [4, 5] (dtype_of (numpy float64))"
  "heap example_state 3 = ones [8] (dtype_of (numpy complex128))"
  "heap example_state 4 = ones [8] (dtype_of (numpy float32))"
  "heap example_state 5 = ones [4, 4] (dtype_of (numpy int32))"
  "heap example_state 6 = zeros [8] (dtype_of (numpy float64))"
  "heap example_state 7 = ones [8] (dtype_of (numpy complex64))"
  by (simp_all add: example_state_def example_heap_def)

lemmas run_filters =
  fourier_gaussian_def fourier_uniform_def fourier_ellipsoid_def fourier_shift_def
  get_output_fourier_def get_output_fourier_complex_def alloc_def check_axis_def
  normalize_sequence_def call_native_def idle_kernel_def ndim_def ones_def zeros_def
  dtype_of_def

theorem return_value_of_filters_witness:
  "fst (fourier_gaussian idle_kernel 0 (Scalar 1) (- 1) (- 1) Absent example_state) =
     Inr (Some 8) \<and>
   fst (fourier_gaussian idle_kernel 0 (Scalar 1) (- 1) (- 1) (Buffer 1) example_state) =
     Inr None \<and>
   fst (fourier_uniform idle_kernel 0 (Sequence [2, 3]) (- 1) 0 (TypeToken (numpy float32))
     example_state) = Inr (Some 8) \<and>
   fst (fourier_ellipsoid idle_kernel 0 (Scalar 1) 6 1 Absent example_state) =
     Inr (Some 8) \<and>
   fst (fourier_shift idle_kernel 3 (Scalar (5 / 2)) (- 1) (- 1) Absent example_state) =
     Inr (Some 8) \<and>
   fresh (snd (fourier_shift idle_kernel 3 (Scalar (5 / 2)) (- 1) (- 1) Absent example_state))
     = 9 \<and>
   fst (fourier_shift idle_kernel 3 (Scalar (5 / 2)) (- 1) (- 1) (Buffer 3) example_state) =
     Inr None"
  using
    return_value_of_filters [of idle_kernel 0 "Scalar 1" "- 1" "- 1" Absent example_state "Some 8"]
    return_value_of_filters [of idle_kernel 0 "Scalar 1" "- 1" "- 1" "Buffer 1" example_state None]
    return_value_of_filters [of idle_kernel 3 "Scalar (5 / 2)" "- 1" "- 1" Absent example_state "Some 8"]
  by (simp add: run_filters example_state_simps)

text \<open>Each filter is its provisioner followed by the three later steps.\<close>

lemma fourier_gaussian_after:
  assumes "get_output_fourier output input s = (Inr (out, rv), s1)"
  shows "fourier_gaussian K input p n axis output s =
      (case check_axis axis (ndim (heap s input)) of
       Inl e \<Rightarrow> (Inl e, s1)
     | Inr ax \<Rightarrow>
        (case normalize_sequence p (ndim (heap s input)) of
           Inl e \<Rightarrow> (Inl e, s1)
         | Inr ps \<Rightarrow>
            (case call_native K (Fourier_filter input ps n ax out 0) s1 of
               (Inl e, s2) \<Rightarrow> (Inl e, s2)
             | (Inr u, s2) \<Rightarrow> (Inr rv, s2))))"
proof -
  have nd: "ndim (heap s1 input) = ndim (heap s input)"
    using get_output_fourier_success(5) [OF assms] by (simp add: ndim_def)
  show ?thesis
    by (simp add: fourier_gaussian_def assms nd cong: sum.case_cong)
qed

lemma fourier_uniform_after:
  assumes "get_output_fourier output input s = (Inr (out, rv), s1)"
  shows "fourier_uniform K input p n axis output s =
      (case check_axis axis (ndim (heap s input)) of
       Inl e \<Rightarrow> (Inl e, s1)
     | Inr ax \<Rightarrow>
        (case normalize_sequence p (ndim (heap s input)) of
           Inl e \<Rightarrow> (Inl e, s1)
         | Inr ps \<Rightarrow>
            (case call_native K (Fourier_filter input ps n ax out 1) s1 of
               (Inl e, s2) \<Rightarrow> (Inl e, s2)
             | (Inr u, s2) \<Rightarrow> (Inr rv, s2))))"
proof -
  have nd: "ndim (heap s1 input) = ndim (heap s input)"
    using get_output_fourier_success(5) [OF assms] by (simp add: ndim_def)
  show ?thesis
    by (simp add: fourier_uniform_def assms nd cong: sum.case_cong)
qed

lemma fourier_ellipsoid_after:
  assumes "get_output_fourier output input s = (Inr (out, rv), s1)"
  shows "fourier_ellipsoid K input p n axis output s =
      (case check_axis axis (ndim (heap s input)) of
       Inl e \<Rightarrow> (Inl e, s1)
     | Inr ax \<Rightarrow>
        (case normalize_sequence p (ndim (heap s input)) of
           Inl e \<Rightarrow> (Inl e, s1)
         | Inr ps \<Rightarrow>
            (case call_native K (Fourier_filter input ps n ax out 2) s1 of
               (Inl e, s2) \<Rightarrow> (Inl e, s2)
             | (Inr u, s2) \<Rightarrow> (Inr rv, s2))))"
proof -
  have nd: "ndim (heap s1 input) = ndim (heap s input)"
    using get_output_fourier_success(5) [OF assms] by (simp add: ndim_def)
  show ?thesis
    by (simp add: fourier_ellipsoid_def assms nd cong: sum.case_cong)
qed

lemma fourier_shift_after:
  assumes "get_output_fourier_complex output input s = (Inr (out, rv), s1)"
  shows "fourier_shift K input p n axis output s =
      (case check_axis axis (ndim (heap s input)) of
       Inl e \<Rightarrow> (Inl e, s1)
     | Inr ax \<Rightarrow>
        (case normalize_sequence p (ndim (heap s input)) of
           Inl e \<Rightarrow> (Inl e, s1)
         | Inr ps \<Rightarrow>
            (case call_native K (Fourier_shift input ps n ax out) s1 of
               (Inl e, s2) \<Rightarrow> (Inl e, s2)
             | (Inr u, s2) \<Rightarrow> (Inr rv, s2))))"
proof -
  have nd: "ndim (heap s1 input) = ndim (heap s input)"
    using get_output_fourier_complex_success(5) [OF assms] by (simp add: ndim_def)
  show ?thesis
    by (simp add: fourier_shift_def assms nd cong: sum.case_cong)
qed

lemma later_steps_trace:
  assumes "check_axis axis r = Inr ax" and "normalize_sequence p r = Inr ps"
  shows "trace (snd (case check_axis axis r of
       Inl e \<Rightarrow> (Inl e, s)
     | Inr ax \<Rightarrow>
        (case normalize_sequence p r of
           Inl e \<Rightarrow> (Inl e, s)
         | Inr ps \<Rightarrow>
            (case call_native K (c ps ax) s of
               (Inl e, s2) \<Rightarrow> (Inl e, s2)
             | (Inr u, s2) \<Rightarrow> (Inr rv, s2))))) = trace s @ [c ps ax]"
  using assms call_native_result(2) [of K "c ps ax" s]
  by (auto split: prod.splits sum.splits)

text \<open>
  C6. The order of the steps in each filter is: provision the output, then normalise the
  axis, then normalise the filter parameter, then call the native routine. So an error of
  the provisioner is the one raised whatever the axis and the parameter are; an invalid axis
  is reported before an invalid parameter; in these three cases no native call is made; and
  when all three steps succeed the native routine is called with their results.
\<close>

theorem steps_in_source_order:
  "(fst (get_output_fourier output input s) = Inl e \<longrightarrow>
      fourier_gaussian K input p n axis output s = (Inl e, s) \<and>
      fourier_uniform K input p n axis output s = (Inl e, s) \<and>
      fourier_ellipsoid K input p n axis output s = (Inl e, s)) \<and>
   (fst (get_output_fourier_complex output input s) = Inl e \<longrightarrow>
      fourier_shift K input p n axis output s = (Inl e, s)) \<and>
   (fst (get_output_fourier output input s) = Inr (out, rv) \<and>
    check_axis axis (ndim (heap s input)) = Inl e \<longrightarrow>
      fst (fourier_gaussian K input p n axis output s) = Inl e \<and>
      trace (snd (fourier_gaussian K input p n axis output s)) = trace s \<and>
      fst (fourier_uniform K input p n axis output s) = Inl e \<and>
      trace (snd (fourier_uniform K input p n axis output s)) = trace s \<and>
      fst (fourier_ellipsoid K input p n axis output s) = Inl e \<and>
      trace (snd (fourier_ellipsoid K input p n axis output s)) = trace s) \<and>
   (fst (get_output_fourier_complex output input s) = Inr (out, rv) \<and>
    check_axis axis (ndim (heap s input)) = Inl e \<longrightarrow>
      fst (fourier_shift K input p n axis output s) = Inl e \<and>
      trace (snd (fourier_shift K input p n axis output s)) = trace s) \<and>
   (fst (get_output_fourier output input s) = Inr (out, rv) \<and>
    check_axis axis (ndim (heap s input)) = Inr ax \<and>
    normalize_sequence p (ndim (heap s input)) = Inl e \<longrightarrow>
      fst (fourier_gaussian K input p n axis output s) = Inl e \<and>
      trace (snd (fourier_gaussian K input p n axis output s)) = trace s \<and>
      fst (fourier_uniform K input p n axis output s) = Inl e \<and>
      trace (snd (fourier_uniform K input p n axis output s)) = trace s \<and>
      fst (fourier_ellipsoid K input p n axis output s) = Inl e \<and>
      trace (snd (fourier_ellipsoid K input p n axis output s)) = trace s) \<and>
   (fst (get_output_fourier_complex output input s) = Inr (out, rv) \<and>
    check_axis axis (ndim (heap s input)) = Inr ax \<and>
    normalize_sequence p (ndim (heap s input)) = Inl e \<longrightarrow>
      fst (fourier_shift K input p n axis output s) = Inl e \<and>
      trace (snd (fourier_shift K input p n axis output s)) = trace s) \<and>
   (fst (get_output_fourier output input s) = Inr (out, rv) \<and>
    check_axis axis (ndim (heap s input)) = Inr ax \<and>
    normalize_sequence p (ndim (heap s input)) = Inr ps \<longrightarrow>
      trace (snd (fourier_gaussian K input p n axis output s)) =
        trace s @ [Fourier_filter input ps n ax out 0] \<and>
      trace (snd (fourier_uniform K input p n axis output s)) =
        trace s @ [Fourier_filter input ps n ax out 1] \<and>
      trace (snd (fourier_ellipsoid K input p n axis output s)) =
        trace s @ [Fourier_filter input ps n ax out 2]) \<and>
   (fst (get_output_fourier_complex output input s) = Inr (out, rv) \<and>
    check_axis axis (ndim (heap s input)) = Inr ax \<and>
    normalize_sequence p (ndim (heap s input)) = Inr ps \<longrightarrow>
      trace (snd (fourier_shift K input p n axis output s)) =
        trace s @ [Fourier_shift input ps n ax out])"
proof -
  have fail: "fourier_gaussian K input p n axis output s = (Inl e, s) \<and>
      fourier_uniform K input p n axis output s = (Inl e, s) \<and>
      fourier_ellipsoid K input p n axis output s = (Inl e, s)"
    if h: "fst (get_output_fourier output input s) = Inl e"
  proof -
    obtain s1 where pr: "get_output_fourier output input s = (Inl e, s1)"
      using h by (cases "get_output_fourier output input s") auto
    show ?thesis
      using get_output_fourier_failure [OF pr] pr
      by (simp add: fourier_gaussian_def fourier_uniform_def fourier_ellipsoid_def)
  qed
  have failc: "fourier_shift K input p n axis output s = (Inl e, s)"
    if h: "fst (get_output_fourier_complex output input s) = Inl e"
  proof -
    obtain s1 where pr: "get_output_fourier_complex output input s = (Inl e, s1)"
      using h by (cases "get_output_fourier_complex output input s") auto
    show ?thesis
      using get_output_fourier_complex_failure [OF pr] pr by (simp add: fourier_shift_def)
  qed
  have real: "\<exists>s1. get_output_fourier output input s = (Inr (out, rv), s1) \<and> trace s1 = trace s"
    if h: "fst (get_output_fourier output input s) = Inr (out, rv)"
  proof -
    obtain s1 where pr: "get_output_fourier output input s = (Inr (out, rv), s1)"
      using h by (cases "get_output_fourier output input s") auto
    show ?thesis using pr get_output_fourier_success(4) [OF pr] by simp
  qed
  have cplx: "\<exists>s1. get_output_fourier_complex output input s = (Inr (out, rv), s1) \<and>
      trace s1 = trace s"
    if h: "fst (get_output_fourier_complex output input s) = Inr (out, rv)"
  proof -
    obtain s1 where pr: "get_output_fourier_complex output input s = (Inr (out, rv), s1)"
      using h by (cases "get_output_fourier_complex output input s") auto
    show ?thesis using pr get_output_fourier_complex_success(4) [OF pr] by simp
  qed
  have axis_real: "fst (fourier_gaussian K input p n axis output s) = Inl e \<and>
      trace (snd (fourier_gaussian K input p n axis output s)) = trace s \<and>
      fst (fourier_uniform K input p n axis output s) = Inl e \<and>
      trace (snd (fourier_uniform K input p n axis output s)) = trace s \<and>
      fst (fourier_ellipsoid K input p n axis output s) = Inl e \<and>
      trace (snd (fourier_ellipsoid K input p n axis output s)) = trace s"
    if h: "fst (get_output_fourier output input s) = Inr (out, rv)"
      and h1: "check_axis axis (ndim (heap s input)) = Inl e"
  proof -
    obtain s1 where pr: "get_output_fourier output input s = (Inr (out, rv), s1)"
      and tr: "trace s1 = trace s"
      using real [OF h] by blast
    show ?thesis
      by (simp add: fourier_gaussian_after [OF pr] fourier_uniform_after [OF pr]
          fourier_ellipsoid_after [OF pr] h1 tr)
  qed
  have axis_cplx: "fst (fourier_shift K input p n axis output s) = Inl e \<and>
      trace (snd (fourier_shift K input p n axis output s)) = trace s"
    if h: "fst (get_output_fourier_complex output input s) = Inr (out, rv)"
      and h1: "check_axis axis (ndim (heap s input)) = Inl e"
  proof -
    obtain s1 where pr: "get_output_fourier_complex output input s = (Inr (out, rv), s1)"
      and tr: "trace s1 = trace s"
      using cplx [OF h] by blast
    show ?thesis by (simp add: fourier_shift_after [OF pr] h1 tr)
  qed
  have seq_real: "fst (fourier_gaussian K input p n axis output s) = Inl e \<and>
      trace (snd (fourier_gaussian K input p n axis output s)) = trace s \<and>
      fst (fourier_uniform K input p n axis output s) = Inl e \<and>
      trace (snd (fourier_uniform K input p n axis output s)) = trace s \<and>
      fst (fourier_ellipsoid K input p n axis output s) = Inl e \<and>
      trace (snd (fourier_ellipsoid K input p n axis output s)) = trace s"
    if h: "fst (get_output_fourier output input s) = Inr (out, rv)"
      and h1: "check_axis axis (ndim (heap s input)) = Inr ax"
      and h2: "normalize_sequence p (ndim (heap s input)) = Inl e"
  proof -
    obtain s1 where pr: "get_output_fourier output input s = (Inr (out, rv), s1)"
      and tr: "trace s1 = trace s"
      using real [OF h] by blast
    show ?thesis
      by (simp add: fourier_gaussian_after [OF pr] fourier_uniform_after [OF pr]
          fourier_ellipsoid_after [OF pr] h1 h2 tr)
  qed
  have seq_cplx: "fst (fourier_shift K input p n axis output s) = Inl e \<and>
      trace (snd (fourier_shift K input p n axis output s)) = trace s"
    if h: "fst (get_output_fourier_complex output input s) = Inr (out, rv)"
      and h1: "check_axis axis (ndim (heap s input)) = Inr ax"
      and h2: "normalize_sequence p (ndim (heap s input)) = Inl e"
  proof -
    obtain s1 where pr: "get_output_fourier_complex output input s = (Inr (out, rv), s1)"
      and tr: "trace s1 = trace s"
      using cplx [OF h] by blast
    show ?thesis by (simp add: fourier_shift_after [OF pr] h1 h2 tr)
  qed
  have call_real: "trace (snd (fourier_gaussian K input p n axis output s)) =
        trace s @ [Fourier_filter input ps n ax out 0] \<and>
      trace (snd (fourier_uniform K input p n axis output s)) =
        trace s @ [Fourier_filter input ps n ax out 1] \<and>
      trace (snd (fourier_ellipsoid K input p n axis output s)) =
        trace s @ [Fourier_filter input ps n ax out 2]"
    if h: "fst (get_output_fourier output input s) = Inr (out, rv)"
      and h1: "check_axis axis (ndim (heap s input)) = Inr ax"
      and h2: "normalize_sequence p (ndim (heap s input)) = Inr ps"
  proof -
    obtain s1 where pr: "get_output_fourier output input s = (Inr (out, rv), s1)"
      and tr: "trace s1 = trace s"
      using real [OF h] by blast
    show ?thesis
      unfolding fourier_gaussian_after [OF pr] fourier_uniform_after [OF pr]
          fourier_ellipsoid_after [OF pr]
      using
        later_steps_trace [OF h1 h2, where s = s1 and K = K and c = "\<lambda>ps ax. Fourier_filter input ps n ax out 0" and rv = rv]
        later_steps_trace [OF h1 h2, where s = s1 and K = K and c = "\<lambda>ps ax. Fourier_filter input ps n ax out 1" and rv = rv]
        later_steps_trace [OF h1 h2, where s = s1 and K = K and c = "\<lambda>ps ax. Fourier_filter input ps n ax out 2" and rv = rv]
      by (simp add: tr)
  qed
  have call_cplx: "trace (snd (fourier_shift K input p n axis output s)) =
        trace s @ [Fourier_shift input ps n ax out]"
    if h: "fst (get_output_fourier_complex output input s) = Inr (out, rv)"
      and h1: "check_axis axis (ndim (heap s input)) = Inr ax"
      and h2: "normalize_sequence p (ndim (heap s input)) = Inr ps"
  proof -
    obtain s1 where pr: "get_output_fourier_complex output input s = (Inr (out, rv), s1)"
      and tr: "trace s1 = trace s"
      using cplx [OF h] by blast
    show ?thesis
      unfolding fourier_shift_after [OF pr]
      using
        later_steps_trace [OF h1 h2, where s = s1 and K = K and c = "\<lambda>ps ax. Fourier_shift input ps n ax out" and rv = rv]
      by (simp add: tr)
  qed
  show ?thesis
    using fail failc axis_real axis_cplx seq_real seq_cplx call_real call_cplx by blast
qed

theorem steps_in_source_order_witness:
  "fst (get_output_fourier (TypeToken (numpy int32)) 0 example_state) =
     Inl (RuntimeError ''output type not supported'') \<and>
   fourier_gaussian idle_kernel 0 (Sequence [1]) (- 1) 5 (TypeToken (numpy int32)) example_state =
     (Inl (RuntimeError ''output type not supported''), example_state) \<and>
   fst (get_output_fourier Absent 0 example_state) = Inr (8, Some 8) \<and>
   check_axis 5 (ndim (heap example_state 0)) = Inl AxisOutOfRange \<and>
   fst (fourier_gaussian idle_kernel 0 (Sequence [1]) (- 1) 5 Absent example_state) =
     Inl AxisOutOfRange \<and>
   check_axis (- 1) (ndim (heap example_state 0)) = Inr 1 \<and>
   normalize_sequence (Sequence [1]) (ndim (heap example_state 0)) = Inl LengthMismatch \<and>
   fst (fourier_gaussian idle_kernel 0 (Sequence [1]) (- 1) (- 1) Absent example_state) =
     Inl LengthMismatch \<and>
   normalize_sequence (Scalar 1) (ndim (heap example_state 0)) = Inr [1, 1] \<and>
   trace (snd (fourier_gaussian idle_kernel 0 (Scalar 1) (- 1) (- 1) Absent example_state)) =
     [Fourier_filter 0 [1, 1] (- 1) 1 8 0]"
  using
    steps_in_source_order [of "TypeToken (numpy int32)" 0 example_state
      "RuntimeError ''output type not supported''" idle_kernel "Sequence [1]" "- 1" 5]
    steps_in_source_order [of Absent 0 example_state AxisOutOfRange idle_kernel
      "Sequence [1]" "- 1" 5 8 "Some 8"]
    steps_in_source_order [of Absent 0 example_state LengthMismatch idle_kernel
      "Sequence [1]" "- 1" "- 1" 8 "Some 8" 1]
    steps_in_source_order [of Absent 0 example_state LengthMismatch idle_kernel
      "Scalar 1" "- 1" "- 1" 8 "Some 8" 1 "[1, 1]"]
  by (simp add: run_filters example_state_simps)

text \<open>
  C6 with the normalisation placed before the provisioner does not hold. On the 4 by 4 input
  at address 0, with axis 5, a parameter sequence of length 1 and the type int32 for
  \<open>output\<close>, the axis and the parameter are both invalid, yet the error raised is the
  provisioner's; and with \<open>output\<close> absent and axis 5 the output array has been allocated
  by the time the axis error is raised.
\<close>

theorem normalization_error_first_counterexample:
  "check_axis 5 (ndim (heap example_state 0)) = Inl AxisOutOfRange \<and>
   normalize_sequence (Sequence [1]) (ndim (heap example_state 0)) = Inl LengthMismatch \<and>
   fst (get_output_fourier (TypeToken (numpy int32)) 0 example_state) =
     Inl (RuntimeError ''output type not supported'') \<and>
   fst (fourier_gaussian idle_kernel 0 (Sequence [1]) (- 1) 5 (TypeToken (numpy int32))
     example_state) = Inl (RuntimeError ''output type not supported'') \<and>
   fst (fourier_gaussian idle_kernel 0 (Sequence [1]) (- 1) 5 (TypeToken (numpy int32))
     example_state) \<noteq> Inl AxisOutOfRange \<and>
   fst (fourier_gaussian idle_kernel 0 (Sequence [1]) (- 1) 5 (TypeToken (numpy int32))
     example_state) \<noteq> Inl LengthMismatch \<and>
   fst (fourier_shift idle_kernel 0 (Sequence [1]) (- 1) 5 (Buffer 2) example_state) =
     Inl (RuntimeError ''output shape not correct'') \<and>
   fst (fourier_gaussian idle_kernel 0 (Scalar 1) (- 1) 5 Absent example_state) =
     Inl AxisOutOfRange \<and>
   fresh (snd (fourier_gaussian idle_kernel 0 (Scalar 1) (- 1) 5 Absent example_state)) = 9"
  by (simp add: run_filters example_state_simps)

section \<open>The parameter normalisers\<close>

text \<open>
  C7. For an axis \<open>a\<close> and a rank \<open>n\<close> with \<open>-n \<le> a < n\<close>, \<open>_check_axis\<close> returns \<open>a\<close> when
  \<open>a \<ge> 0\<close> and \<open>n + a\<close> when \<open>a < 0\<close>, a value in \<open>[0, n)\<close>; for every other \<open>a\<close> it fails
  with the out-of-range error.
\<close>

theorem check_axis_range:
  "(- int n \<le> a \<and> a < int n \<longrightarrow>
      check_axis a n = Inr (if 0 \<le> a then a else int n + a) \<and>
      0 \<le> (if 0 \<le> a then a else int n + a) \<and>
      (if 0 \<le> a then a else int n + a) < int n) \<and>
   (\<not> (- int n \<le> a \<and> a < int n) \<longrightarrow> check_axis a n = Inl AxisOutOfRange)"
  by (auto simp: check_axis_def)

theorem check_axis_range_witness:
  "check_axis (- 1) 2 = Inr 1 \<and> check_axis 0 2 = Inr 0 \<and> check_axis (- 2) 2 = Inr 0 \<and>
   check_axis 2 2 = Inl AxisOutOfRange \<and> check_axis (- 3) 2 = Inl AxisOutOfRange \<and>
   check_axis 0 0 = Inl AxisOutOfRange"
  using check_axis_range [of 2 "- 1"] check_axis_range [of 2 0] check_axis_range [of 2 "- 2"]
    check_axis_range [of 2 2] check_axis_range [of 2 "- 3"] check_axis_range [of 0 0]
  by simp

text \<open>
  C8. For every rank, \<open>_normalize_sequence\<close> turns a scalar \<open>x\<close> into a sequence of that length
  whose elements all equal \<open>x\<close>; it fails with the length-mismatch error on a sequence of any
  other length than the rank, and returns a sequence of the right length as it is.
\<close>

theorem normalize_sequence_broadcast:
  "(\<exists>ys. normalize_sequence (Scalar x) r = Inr ys \<and> length ys = r \<and> (\<forall>y \<in> set ys. y = x)) \<and>
   (length xs \<noteq> r \<longrightarrow> normalize_sequence (Sequence xs) r = Inl LengthMismatch) \<and>
   (length xs = r \<longrightarrow> normalize_sequence (Sequence xs) r = Inr xs)"
  by (simp add: normalize_sequence_def)

theorem normalize_sequence_broadcast_witness:
  "normalize_sequence (Scalar (5 / 2)) 3 = Inr [5 / 2, 5 / 2, 5 / 2] \<and>
   normalize_sequence (Sequence [1, 2]) 3 = Inl LengthMismatch \<and>
   normalize_sequence (Sequence [1, 2, 3]) 3 = Inr [1, 2, 3] \<and>
   normalize_sequence (Sequence [1]) 0 = Inl LengthMismatch"
  using normalize_sequence_broadcast [of "5 / 2" 3 "[1, 2]"]
    normalize_sequence_broadcast [of "5 / 2" 3 "[1, 2, 3]"]
    normalize_sequence_broadcast [of "5 / 2" 0 "[1]"]
  by (simp add: normalize_sequence_def numeral_3_eq_3)

section \<open>Arrays given for \<open>output\<close>\<close>

lemma later_steps_result:
  assumes "check_axis axis r = Inr ax" and "normalize_sequence p r = Inr ps"
  shows "fst (case check_axis axis r of
       Inl e \<Rightarrow> (Inl e, s)
     | Inr ax \<Rightarrow>
        (case normalize_sequence p r of
           Inl e \<Rightarrow> (Inl e, s)
         | Inr ps \<Rightarrow>
            (case call_native K (c ps ax) s of
               (Inl e, s2) \<Rightarrow> (Inl e, s2)
             | (Inr u, s2) \<Rightarrow> (Inr rv, s2)))) = Inr rv \<or>
     (\<exists>msg. fst (case check_axis axis r of
       Inl e \<Rightarrow> (Inl e, s)
     | Inr ax \<Rightarrow>
        (case normalize_sequence p r of
           Inl e \<Rightarrow> (Inl e, s)
         | Inr ps \<Rightarrow>
            (case call_native K (c ps ax) s of
               (Inl e, s2) \<Rightarrow> (Inl e, s2)
             | (Inr u, s2) \<Rightarrow> (Inr rv, s2)))) = Inl (KernelError msg))"
  using assms call_native_result(1) [of K "c ps ax" s]
  by (auto split: prod.splits sum.splits)

text \<open>
  C9. An array given for \<open>output\<close> whose shape is the input's is accepted by both
  provisioners whatever its dtype is: the result is the array itself with
  \<open>return_value = None\<close>, also after its dtype is replaced by any other. When the axis and
  the parameter are valid, each filter then passes that array to the native routine as the
  output.
\<close>

theorem preallocated_dtype_unchecked:
  "shape (heap s b) = shape (heap s input) \<longrightarrow>
     get_output_fourier (Buffer b) input s = (Inr (b, None), s) \<and>
     get_output_fourier_complex (Buffer b) input s = (Inr (b, None), s) \<and>
     get_output_fourier (Buffer b) input (s\<lparr>heap := (heap s)(b := (heap s b)\<lparr>dtype := d\<rparr>)\<rparr>) =
       (Inr (b, None), s\<lparr>heap := (heap s)(b := (heap s b)\<lparr>dtype := d\<rparr>)\<rparr>) \<and>
     get_output_fourier_complex (Buffer b) input
         (s\<lparr>heap := (heap s)(b := (heap s b)\<lparr>dtype := d\<rparr>)\<rparr>) =
       (Inr (b, None), s\<lparr>heap := (heap s)(b := (heap s b)\<lparr>dtype := d\<rparr>)\<rparr>) \<and>
     (check_axis axis (ndim (heap s input)) = Inr ax \<and>
      normalize_sequence p (ndim (heap s input)) = Inr ps \<longrightarrow>
        trace (snd (fourier_gaussian K input p n axis (Buffer b) s)) =
          trace s @ [Fourier_filter input ps n ax b 0] \<and>
        trace (snd (fourier_uniform K input p n axis (Buffer b) s)) =
          trace s @ [Fourier_filter input ps n ax b 1] \<and>
        trace (snd (fourier_ellipsoid K input p n axis (Buffer b) s)) =
          trace s @ [Fourier_filter input ps n ax b 2] \<and>
        trace (snd (fourier_shift K input p n axis (Buffer b) s)) =
          trace s @ [Fourier_shift input ps n ax b])"
proof (intro impI conjI)
  assume eq: "shape (heap s b) = shape (heap s input)"
  show "get_output_fourier (Buffer b) input s = (Inr (b, None), s)"
    using eq by (simp add: get_output_fourier_Buffer)
  show "get_output_fourier_complex (Buffer b) input s = (Inr (b, None), s)"
    using eq by (simp add: get_output_fourier_complex_Buffer)
  show "get_output_fourier (Buffer b) input (s\<lparr>heap := (heap s)(b := (heap s b)\<lparr>dtype := d\<rparr>)\<rparr>) =
       (Inr (b, None), s\<lparr>heap := (heap s)(b := (heap s b)\<lparr>dtype := d\<rparr>)\<rparr>)"
  proof (cases "input = b")
    case True
    then show ?thesis by (simp add: get_output_fourier_Buffer)
  next
    case False
    then show ?thesis by (simp add: get_output_fourier_Buffer eq)
  qed
  show "get_output_fourier_complex (Buffer b) input
         (s\<lparr>heap := (heap s)(b := (heap s b)\<lparr>dtype := d\<rparr>)\<rparr>) =
       (Inr (b, None), s\<lparr>heap := (heap s)(b := (heap s b)\<lparr>dtype := d\<rparr>)\<rparr>)"
  proof (cases "input = b")
    case True
    then show ?thesis by (simp add: get_output_fourier_complex_Buffer)
  next
    case False
    then show ?thesis by (simp add: get_output_fourier_complex_Buffer eq)
  qed
next
  assume eq: "shape (heap s b) = shape (heap s input)"
    and ok: "check_axis axis (ndim (heap s input)) = Inr ax \<and>
      normalize_sequence p (ndim (heap s input)) = Inr ps"
  from ok have a: "check_axis axis (ndim (heap s input)) = Inr ax"
    and q: "normalize_sequence p (ndim (heap s input)) = Inr ps" by simp_all
  show "trace (snd (fourier_gaussian K input p n axis (Buffer b) s)) =
          trace s @ [Fourier_filter input ps n ax b 0]"
    unfolding fourier_gaussian_Buffer_ok [OF eq]
    by (rule later_steps_trace [OF a q, where c = "\<lambda>ps ax. Fourier_filter input ps n ax b 0"])
  show "trace (snd (fourier_uniform K input p n axis (Buffer b) s)) =
          trace s @ [Fourier_filter input ps n ax b 1]"
    unfolding fourier_uniform_Buffer_ok [OF eq]
    by (rule later_steps_trace [OF a q, where c = "\<lambda>ps ax. Fourier_filter input ps n ax b 1"])
  show "trace (snd (fourier_ellipsoid K input p n axis (Buffer b) s)) =
          trace s @ [Fourier_filter input ps n ax b 2]"
    unfolding fourier_ellipsoid_Buffer_ok [OF eq]
    by (rule later_steps_trace [OF a q, where c = "\<lambda>ps ax. Fourier_filter input ps n ax b 2"])
  show "trace (snd (fourier_shift K input p n axis (Buffer b) s)) =
          trace s @ [Fourier_shift input ps n ax b]"
    unfolding fourier_shift_Buffer_ok [OF eq]
    by (rule later_steps_trace [OF a q, where c = "\<lambda>ps ax. Fourier_shift input ps n ax b"])
qed

theorem preallocated_dtype_unchecked_witness:
  "shape (heap example_state 6) = shape (heap example_state 3) \<and>
   dtype (heap example_state 6) = dtype_of (numpy float64) \<and>
   fst (get_output_fourier_complex (TypeToken (numpy float64)) 3 example_state) =
     Inl (RuntimeError ''output type not supported'') \<and>
   get_output_fourier_complex (Buffer 6) 3 example_state = (Inr (6, None), example_state) \<and>
   check_axis (- 1) (ndim (heap example_state 3)) = Inr 0 \<and>
   normalize_sequence (Scalar (5 / 2)) (ndim (heap example_state 3)) = Inr [5 / 2] \<and>
   trace (snd (fourier_shift idle_kernel 3 (Scalar (5 / 2)) (- 1) (- 1) (Buffer 6) example_state))
     = [Fourier_shift 3 [5 / 2] (- 1) 0 6]"
  using preallocated_dtype_unchecked [of example_state 6 3 "dtype_of (numpy float64)" "- 1" 0
      "Scalar (5 / 2)" "[5 / 2]" idle_kernel "- 1"]
  by (simp add: run_filters example_state_simps)

text \<open>
  C10. When the input array itself is given for \<open>output\<close>, both provisioners accept it and
  return it with \<open>return_value = None\<close>, and no filter raises a \<open>RuntimeError\<close>. When the
  axis and the parameter are valid, the native routine is called with the input as its
  output as well, and the filter returns \<open>None\<close> unless the native routine itself raises.
\<close>

theorem input_as_output:
  "get_output_fourier (Buffer input) input s = (Inr (input, None), s) \<and>
   get_output_fourier_complex (Buffer input) input s = (Inr (input, None), s) \<and>
   fst (fourier_gaussian K input p n axis (Buffer input) s) \<noteq> Inl (RuntimeError m) \<and>
   fst (fourier_uniform K input p n axis (Buffer input) s) \<noteq> Inl (RuntimeError m) \<and>
   fst (fourier_ellipsoid K input p n axis (Buffer input) s) \<noteq> Inl (RuntimeError m) \<and>
   fst (fourier_shift K input p n axis (Buffer input) s) \<noteq> Inl (RuntimeError m) \<and>
   (check_axis axis (ndim (heap s input)) = Inr ax \<and>
    normalize_sequence p (ndim (heap s input)) = Inr ps \<longrightarrow>
      trace (snd (fourier_gaussian K input p n axis (Buffer input) s)) =
        trace s @ [Fourier_filter input ps n ax input 0] \<and>
      (fst (fourier_gaussian K input p n axis (Buffer input) s) = Inr None \<or>
       (\<exists>msg. fst (fourier_gaussian K input p n axis (Buffer input) s) =
          Inl (KernelError msg))) \<and>
      trace (snd (fourier_uniform K input p n axis (Buffer input) s)) =
        trace s @ [Fourier_filter input ps n ax input 1] \<and>
      (fst (fourier_uniform K input p n axis (Buffer input) s) = Inr None \<or>
       (\<exists>msg. fst (fourier_uniform K input p n axis (Buffer input) s) =
          Inl (KernelError msg))) \<and>
      trace (snd (fourier_ellipsoid K input p n axis (Buffer input) s)) =
        trace s @ [Fourier_filter input ps n ax input 2] \<and>
      (fst (fourier_ellipsoid K input p n axis (Buffer input) s) = Inr None \<or>
       (\<exists>msg. fst (fourier_ellipsoid K input p n axis (Buffer input) s) =
          Inl (KernelError msg))) \<and>
      trace (snd (fourier_shift K input p n axis (Buffer input) s)) =
        trace s @ [Fourier_shift input ps n ax input] \<and>
      (fst (fourier_shift K input p n axis (Buffer input) s) = Inr None \<or>
       (\<exists>msg. fst (fourier_shift K input p n axis (Buffer input) s) =
          Inl (KernelError msg))))"
proof -
  have eq: "shape (heap s input) = shape (heap s input)" ..
  note g = fourier_gaussian_Buffer_ok [OF eq]
    and u = fourier_uniform_Buffer_ok [OF eq]
    and e = fourier_ellipsoid_Buffer_ok [OF eq]
    and f = fourier_shift_Buffer_ok [OF eq]
  have prov: "get_output_fourier (Buffer input) input s = (Inr (input, None), s) \<and>
      get_output_fourier_complex (Buffer input) input s = (Inr (input, None), s)"
    by (simp add: get_output_fourier_Buffer get_output_fourier_complex_Buffer)
  have n1: "fst (fourier_gaussian K input p n axis (Buffer input) s) \<noteq> Inl (RuntimeError m)"
    unfolding g
    by (rule later_steps_no_RuntimeError
        [where c = "\<lambda>ps ax. Fourier_filter input ps n ax input 0"])
  have n2: "fst (fourier_uniform K input p n axis (Buffer input) s) \<noteq> Inl (RuntimeError m)"
    unfolding u
    by (rule later_steps_no_RuntimeError
        [where c = "\<lambda>ps ax. Fourier_filter input ps n ax input 1"])
  have n3: "fst (fourier_ellipsoid K input p n axis (Buffer input) s) \<noteq> Inl (RuntimeError m)"
    unfolding e
    by (rule later_steps_no_RuntimeError
        [where c = "\<lambda>ps ax. Fourier_filter input ps n ax input 2"])
  have n4: "fst (fourier_shift K input p n axis (Buffer input) s) \<noteq> Inl (RuntimeError m)"
    unfolding f
    by (rule later_steps_no_RuntimeError
        [where c = "\<lambda>ps ax. Fourier_shift input ps n ax input"])
  have run: "trace (snd (fourier_gaussian K input p n axis (Buffer input) s)) =
        trace s @ [Fourier_filter input ps n ax input 0] \<and>
      (fst (fourier_gaussian K input p n axis (Buffer input) s) = Inr None \<or>
       (\<exists>msg. fst (fourier_gaussian K input p n axis (Buffer input) s) =
          Inl (KernelError msg))) \<and>
      trace (snd (fourier_uniform K input p n axis (Buffer input) s)) =
        trace s @ [Fourier_filter input ps n ax input 1] \<and>
      (fst (fourier_uniform K input p n axis (Buffer input) s) = Inr None \<or>
       (\<exists>msg. fst (fourier_uniform K input p n axis (Buffer input) s) =
          Inl (KernelError msg))) \<and>
      trace (snd (fourier_ellipsoid K input p n axis (Buffer input) s)) =
        trace s @ [Fourier_filter input ps n ax input 2] \<and>
      (fst (fourier_ellipsoid K input p n axis (Buffer input) s) = Inr None \<or>
       (\<exists>msg. fst (fourier_ellipsoid K input p n axis (Buffer input) s) =
          Inl (KernelError msg))) \<and>
      trace (snd (fourier_shift K input p n axis (Buffer input) s)) =
        trace s @ [Fourier_shift input ps n ax input] \<and>
      (fst (fourier_shift K input p n axis (Buffer input) s) = Inr None \<or>
       (\<exists>msg. fst (fourier_shift K input p n axis (Buffer input) s) =
          Inl (KernelError msg)))"
    if a: "check_axis axis (ndim (heap s input)) = Inr ax"
      and q: "normalize_sequence p (ndim (heap s input)) = Inr ps"
    unfolding g u e f
    using
      later_steps_trace [OF a q, where c = "\<lambda>ps ax. Fourier_filter input ps n ax input 0"
        and s = s and K = K and rv = None]
      later_steps_trace [OF a q, where c = "\<lambda>ps ax. Fourier_filter input ps n ax input 1"
        and s = s and K = K and rv = None]
      later_steps_trace [OF a q, where c = "\<lambda>ps ax. Fourier_filter input ps n ax input 2"
        and s = s and K = K and rv = None]
      later_steps_trace [OF a q, where c = "\<lambda>ps ax. Fourier_shift input ps n ax input"
        and s = s and K = K and rv = None]
      later_steps_result [OF a q, where c = "\<lambda>ps ax. Fourier_filter input ps n ax input 0"
        and s = s and K = K and rv = None]
      later_steps_result [OF a q, where c = "\<lambda>ps ax. Fourier_filter input ps n ax input 1"
        and s = s and K = K and rv = None]
      later_steps_result [OF a q, where c = "\<lambda>ps ax. Fourier_filter input ps n ax input 2"
        and s = s and K = K and rv = None]
      later_steps_result [OF a q, where c = "\<lambda>ps ax. Fourier_shift input ps n ax input"
        and s = s and K = K and rv = None]
    by (intro conjI) assumption+
  show ?thesis using prov n1 n2 n3 n4 run by blast
qed

theorem input_as_output_witness:
  "get_output_fourier (Buffer 0) 0 example_state = (Inr (0, None), example_state) \<and>
   check_axis (- 1) (ndim (heap example_state 0)) = Inr 1 \<and>
   normalize_sequence (Scalar 1) (ndim (heap example_state 0)) = Inr [1, 1] \<and>
   fst (fourier_gaussian idle_kernel 0 (Scalar 1) (- 1) (- 1) (Buffer 0) example_state) =
     Inr None \<and>
   trace (snd (fourier_gaussian idle_kernel 0 (Scalar 1) (- 1) (- 1) (Buffer 0) example_state))
     = [Fourier_filter 0 [1, 1] (- 1) 1 0 0] \<and>
   trace (snd (fourier_shift idle_kernel 0 (Scalar 1) (- 1) (- 1) (Buffer 0) example_state))
     = [Fourier_shift 0 [1, 1] (- 1) 1 0]"
  using input_as_output [of 0 example_state idle_kernel "Scalar 1" "- 1" "- 1"
      "''output shape not correct''" 1 "[1, 1]"]
  by (simp add: run_filters example_state_simps)

text \<open>
  C10 for every call does not hold: the steps after the provisioner can still raise. With
  the 4 by 4 array at address 0 as input and as \<open>output\<close>, axis 5 gives the out-of-range
  error and a parameter sequence of length 1 the length-mismatch error, both with no native
  call made; and when the native routine raises, its error is the result although the call
  was made with the input as its output.
\<close>

theorem input_as_output_every_call_counterexample:
  "get_output_fourier (Buffer 0) 0 example_state = (Inr (0, None), example_state) \<and>
   fourier_gaussian idle_kernel 0 (Scalar 1) (- 1) 5 (Buffer 0) example_state =
     (Inl AxisOutOfRange, example_state) \<and>
   trace (snd (fourier_gaussian idle_kernel 0 (Scalar 1) (- 1) 5 (Buffer 0) example_state)) = [] \<and>
   fst (fourier_gaussian idle_kernel 0 (Scalar 1) (- 1) 5 (Buffer 0) example_state) \<noteq> Inr None \<and>
   fourier_shift idle_kernel 0 (Sequence [1]) (- 1) (- 1) (Buffer 0) example_state =
     (Inl LengthMismatch, example_state) \<and>
   fst (fourier_gaussian raising_kernel 0 (Scalar 1) (- 1) (- 1) (Buffer 0) example_state) =
     Inl (KernelError ''data type not supported'') \<and>
   trace (snd (fourier_gaussian raising_kernel 0 (Scalar 1) (- 1) (- 1) (Buffer 0)
     example_state)) = [Fourier_filter 0 [1, 1] (- 1) 1 0 0]"
  by (simp add: run_filters raising_kernel_def example_state_simps)

end
